theory Spec2Isabelle
  imports Complex_Main
begin

section \<open>Exceptions\<close>

text \<open>
  The exceptions that can leave the functions modelled below. \<open>IllegalWeekdayError\<close> and
  \<open>IllegalMonthError\<close> are raised by the \<open>calendar\<close> module, \<open>IndexError\<close> by a list
  read out of range or by popping an empty list, \<open>ZeroDivisionError\<close> by a division,
  \<open>KeyError\<close> by a dictionary read, \<open>ValueError\<close> by \<open>int\<close> of a malformed string, and
  \<open>CallbackError\<close> stands for whatever a caller-supplied cell callback raises.
\<close>

datatype exn =
    IllegalWeekdayError int
  | IllegalMonthError int
  | IndexError
  | ZeroDivisionError
  | KeyError
  | ValueError
  | CallbackError string

section \<open>The calendar module, as far as the program calls it\<close>

text \<open>
  \<open>add_calendar_page\<close> calls \<open>calendar.setfirstweekday\<close> and \<open>calendar.monthcalendar\<close>.
  Both are transcribed from the module (Python 3.11), together with the part of
  \<open>datetime\<close> that \<open>calendar.weekday\<close> uses. Python's \<open>%\<close> and \<open>//\<close> on integers
  are floor operations, as \<open>mod\<close> and \<open>div\<close> on \<open>int\<close> are.
\<close>

definition MINYEAR :: int where "MINYEAR = 1"
definition MAXYEAR :: int where "MAXYEAR = 9999"

definition MONDAY :: int where "MONDAY = 0"
definition SUNDAY :: int where "SUNDAY = 6"
definition February :: int where "February = 2"

definition mdays :: "int list" where
  "mdays = [0, 31, 28, 31, 30, 31, 30, 31, 31, 30, 31, 30, 31]"

definition isleap :: "int \<Rightarrow> bool" where
  "isleap year \<longleftrightarrow> year mod 4 = 0 \<and> (year mod 100 \<noteq> 0 \<or> year mod 400 = 0)"

definition DAYS_IN_MONTH :: "int list" where
  "DAYS_IN_MONTH = [-1, 31, 28, 31, 30, 31, 30, 31, 31, 30, 31, 30, 31]"

text \<open>
  \<open>_DAYS_BEFORE_MONTH\<close> is built by a loop over \<open>_DAYS_IN_MONTH[1:]\<close> that appends the
  running total \<open>dbm\<close> and then adds the month's length to it.
\<close>

definition DAYS_BEFORE_MONTH :: "int list" where
  "DAYS_BEFORE_MONTH =
     fst (fold (\<lambda>dim (acc, dbm). (acc @ [dbm], dbm + dim)) (tl DAYS_IN_MONTH) ([-1], 0))"

definition days_before_year :: "int \<Rightarrow> int" where
  "days_before_year year =
     (let y = year - 1 in y * 365 + y div 4 - y div 100 + y div 400)"

definition days_before_month :: "int \<Rightarrow> int \<Rightarrow> int" where
  "days_before_month year month =
     DAYS_BEFORE_MONTH ! nat month + (if month > 2 \<and> isleap year then 1 else 0)"

definition ymd2ord :: "int \<Rightarrow> int \<Rightarrow> int \<Rightarrow> int" where
  "ymd2ord year month day =
     days_before_year year + days_before_month year month + day"

text \<open>
  \<open>calendar.weekday\<close>: a year outside \<open>MINYEAR..MAXYEAR\<close> is first mapped into the
  range; then \<open>datetime.date(year, month, day).weekday()\<close> is
  \<open>(toordinal() + 6) % 7\<close>. It is only called by \<open>monthrange\<close>, with \<open>day = 1\<close> and
  after \<open>month\<close> has been checked, so the date constructor's range checks pass.
\<close>

definition weekday :: "int \<Rightarrow> int \<Rightarrow> int \<Rightarrow> int" where
  "weekday year month day =
     (let year' = (if \<not> (MINYEAR \<le> year \<and> year \<le> MAXYEAR) then 2000 + year mod 400 else year)
      in (ymd2ord year' month day + 6) mod 7)"

definition monthrange :: "int \<Rightarrow> int \<Rightarrow> exn + (int \<times> int)" where
  "monthrange year month =
     (if \<not> (1 \<le> month \<and> month \<le> 12) then Inl (IllegalMonthError month)
      else
        let day1 = weekday year month 1;
            ndays = mdays ! nat month + (if month = February \<and> isleap year then 1 else 0)
        in Inr (day1, ndays))"

text \<open>
  The module keeps one \<open>TextCalendar\<close> object \<open>c\<close> for its module-level interface; its
  only field is \<open>_firstweekday\<close>. This is state shared by every user of the module in
  the process, so it is passed explicitly.
\<close>

record calendar_module =
  c_firstweekday :: int

definition getfirstweekday :: "calendar_module \<Rightarrow> int" where
  "getfirstweekday cm = c_firstweekday cm mod 7"

definition setfirstweekday :: "int \<Rightarrow> calendar_module \<Rightarrow> exn + calendar_module" where
  "setfirstweekday firstweekday cm =
     (if \<not> (MONDAY \<le> firstweekday \<and> firstweekday \<le> SUNDAY)
      then Inl (IllegalWeekdayError firstweekday)
      else Inr (cm\<lparr>c_firstweekday := firstweekday\<rparr>))"

text \<open>
  \<open>itermonthdays\<close> yields \<open>days_before\<close> zeros, the days \<open>1..ndays\<close>, and
  \<open>days_after\<close> zeros.
\<close>

definition itermonthdays :: "calendar_module \<Rightarrow> int \<Rightarrow> int \<Rightarrow> exn + int list" where
  "itermonthdays cm year month =
     (case monthrange year month of
        Inl e \<Rightarrow> Inl e
      | Inr (day1, ndays) \<Rightarrow>
          let days_before = (day1 - getfirstweekday cm) mod 7;
              days_after = (getfirstweekday cm - day1 - ndays) mod 7
          in Inr (replicate (nat days_before) 0 @ [1..ndays] @ replicate (nat days_after) 0))"

text \<open>
  \<open>[days[i:i+7] for i in range(0, len(days), 7)]\<close>: the range has
  \<open>(len(days) + 6) // 7\<close> elements \<open>7 * k\<close>.
\<close>

definition week_slices :: "'a list \<Rightarrow> 'a list list" where
  "week_slices days =
     map (\<lambda>k. take 7 (drop (7 * k) days)) [0 ..< (length days + 6) div 7]"

definition monthcalendar :: "calendar_module \<Rightarrow> int \<Rightarrow> int \<Rightarrow> exn + int list list" where
  "monthcalendar cm year month =
     (case itermonthdays cm year month of
        Inl e \<Rightarrow> Inl e
      | Inr days \<Rightarrow> Inr (week_slices days))"

section \<open>The program's value types\<close>

text \<open>
  \<open>Font\<close>, \<open>Geom\<close> and \<open>Size\<close> are named tuples. Lengths are Python floats; they are
  modelled as exact reals, so every statement below about lengths is a statement about
  the formulas, before any rounding.
\<close>

record Font =
  font_name :: string
  font_size :: real

record Geom =
  geom_x :: real
  geom_y :: real
  geom_width :: real
  geom_height :: real

record Size =
  size_width :: real
  size_height :: real

text \<open>The two fields of a \<open>datetime\<close> object that the program reads.\<close>

record datetime_obj =
  dt_year :: int
  dt_month :: int

section \<open>The drawing surface\<close>

text \<open>
  The program draws on a reportlab \<open>Canvas\<close>. The library is not part of the program;
  the surface is modelled as a recorder: it keeps the graphics parameters the program
  sets (font, line width), the stack of saved graphics states, the calls issued on the
  current page in order, and the finished pages.
\<close>

datatype draw_call =
    SaveState
  | RestoreState
  | SetFont string real
  | SetLineWidth real
  | Rect real real real real
  | DrawString real real string

record canvas =
  cv_font :: Font
  cv_line_width :: real
  cv_state_stack :: "(Font \<times> real) list"
  cv_calls :: "draw_call list"
  cv_pages :: "draw_call list list"
  cv_filename :: string
  cv_pagesize :: Size
  cv_saved :: bool

text \<open>An exception leaves the surface as mutated so far, so a possibly-raising
  operation returns the exception (if any) together with the surface.\<close>

type_synonym outcome = "exn option \<times> canvas"

definition initial_font :: Font where
  "initial_font = \<lparr>font_name = ''Helvetica'', font_size = 12\<rparr>"

definition Canvas :: "string \<Rightarrow> Size \<Rightarrow> canvas" where
  "Canvas filename pagesize =
     \<lparr>cv_font = initial_font, cv_line_width = 1, cv_state_stack = [], cv_calls = [],
      cv_pages = [], cv_filename = filename, cv_pagesize = pagesize, cv_saved = False\<rparr>"

definition saveState :: "canvas \<Rightarrow> canvas" where
  "saveState c =
     c\<lparr>cv_state_stack := (cv_font c, cv_line_width c) # cv_state_stack c,
       cv_calls := cv_calls c @ [SaveState]\<rparr>"

text \<open>\<open>restoreState\<close> pops the stack of saved states; popping an empty list raises.\<close>

definition restoreState :: "canvas \<Rightarrow> outcome" where
  "restoreState c =
     (let c1 = c\<lparr>cv_calls := cv_calls c @ [RestoreState]\<rparr>
      in case cv_state_stack c1 of
           [] \<Rightarrow> (Some IndexError, c1)
         | (f, lw) # st \<Rightarrow>
             (None, c1\<lparr>cv_font := f, cv_line_width := lw, cv_state_stack := st\<rparr>))"

definition setFont :: "string \<Rightarrow> real \<Rightarrow> canvas \<Rightarrow> canvas" where
  "setFont psfontname fontsize c =
     c\<lparr>cv_font := \<lparr>font_name = psfontname, font_size = fontsize\<rparr>,
       cv_calls := cv_calls c @ [SetFont psfontname fontsize]\<rparr>"

definition setLineWidth :: "real \<Rightarrow> canvas \<Rightarrow> canvas" where
  "setLineWidth width c =
     c\<lparr>cv_line_width := width, cv_calls := cv_calls c @ [SetLineWidth width]\<rparr>"

definition canvas_rect :: "real \<Rightarrow> real \<Rightarrow> real \<Rightarrow> real \<Rightarrow> canvas \<Rightarrow> canvas" where
  "canvas_rect x y width height c = c\<lparr>cv_calls := cv_calls c @ [Rect x y width height]\<rparr>"

definition drawString :: "real \<Rightarrow> real \<Rightarrow> string \<Rightarrow> canvas \<Rightarrow> canvas" where
  "drawString x y text c = c\<lparr>cv_calls := cv_calls c @ [DrawString x y text]\<rparr>"

text \<open>\<open>showPage\<close> finishes the current page and starts the next one with the initial
  graphics state and an empty stack of saved states.\<close>

definition showPage :: "canvas \<Rightarrow> canvas" where
  "showPage c =
     c\<lparr>cv_pages := cv_pages c @ [cv_calls c], cv_calls := [],
       cv_font := initial_font, cv_line_width := 1, cv_state_stack := []\<rparr>"

text \<open>\<open>save\<close> finishes a page that still has content and writes the document.\<close>

definition save :: "canvas \<Rightarrow> canvas" where
  "save c = (if cv_calls c \<noteq> [] then showPage c else c)\<lparr>cv_saved := True\<rparr>"

section \<open>Integers as text\<close>

text \<open>
  \<open>str\<close> of an integer is its decimal numeral, with a leading minus sign for a negative
  one. \<open>int\<close> of a string is modelled for the strings \<open>str\<close> produces (an optional
  minus sign and decimal digits); any other string is \<open>ValueError\<close> in the model.
\<close>

definition digit_char :: "nat \<Rightarrow> char" where
  "digit_char d = ''0123456789'' ! d"

fun digits :: "nat \<Rightarrow> string" where
  "digits n = (if n < 10 then [digit_char n] else digits (n div 10) @ [digit_char (n mod 10)])"

declare digits.simps [simp del]

definition str :: "int \<Rightarrow> string" where
  "str n = (if n < 0 then CHR ''-'' # digits (nat (- n)) else digits (nat n))"

definition digit_val :: "char \<Rightarrow> nat option" where
  "digit_val ch =
     (if ch \<in> set ''0123456789'' then Some (of_char ch - 48) else None)"

fun parse_digits :: "nat \<Rightarrow> string \<Rightarrow> nat option" where
  "parse_digits acc [] = Some acc"
| "parse_digits acc (ch # cs) =
     (case digit_val ch of None \<Rightarrow> None | Some d \<Rightarrow> parse_digits (acc * 10 + d) cs)"

definition int_of_str :: "string \<Rightarrow> int option" where
  "int_of_str s =
     (case s of
        [] \<Rightarrow> None
      | ch # cs \<Rightarrow>
          if ch = CHR ''-''
          then (if cs = [] then None else map_option (\<lambda>n. - int n) (parse_digits 0 cs))
          else map_option int (parse_digits 0 s))"

section \<open>The program\<close>

subsection \<open>Tables\<close>

text \<open>The ordinal table; Python's key \<open>None\<close> is the key \<open>None\<close> here.\<close>

definition ORDINALS :: "int option \<rightharpoonup> string" where
  "ORDINALS =
     map_of [(Some 1, ''st''), (Some 2, ''nd''), (Some 3, ''rd''),
             (Some 21, ''st''), (Some 22, ''nd''), (Some 23, ''rd''),
             (Some 31, ''st''), (None, ''th'')]"

text \<open>\<open>calendar.month_abbr\<close> under the locale a Python process starts with (the
  program never sets another); index 0 is the empty string.\<close>

definition month_abbr :: "string list" where
  "month_abbr =
     ['''', ''Jan'', ''Feb'', ''Mar'', ''Apr'', ''May'', ''Jun'',
      ''Jul'', ''Aug'', ''Sep'', ''Oct'', ''Nov'', ''Dec'']"

definition month_abbr_get :: "int \<Rightarrow> exn + string" where
  "month_abbr_get i =
     (let n = int (length month_abbr); j = (if i < 0 then n + i else i)
      in if 0 \<le> j \<and> j < n then Inr (month_abbr ! nat j) else Inl IndexError)"

subsection \<open>\<open>save_state\<close>\<close>

text \<open>
  The context manager is a generator: \<open>saveState\<close>, \<open>yield\<close>, \<open>restoreState\<close>, with
  no \<open>try\<close> around the \<open>yield\<close>. An exception raised in the body of the \<open>with\<close>
  statement is thrown into the generator at the \<open>yield\<close> and leaves it there, so
  \<open>restoreState\<close> is reached only when the body returns normally.
\<close>

definition save_state :: "(canvas \<Rightarrow> outcome) \<Rightarrow> canvas \<Rightarrow> outcome" where
  "save_state body canvas =
     (case body (saveState canvas) of
        (Some e, c) \<Rightarrow> (Some e, c)
      | (None, c) \<Rightarrow> restoreState c)"

text \<open>A \<open>for\<close> loop whose body may raise: the first exception ends the loop.\<close>

fun for_each :: "('a \<Rightarrow> canvas \<Rightarrow> outcome) \<Rightarrow> 'a list \<Rightarrow> canvas \<Rightarrow> outcome" where
  "for_each f [] c = (None, c)"
| "for_each f (x # xs) c =
     (case f x c of
        (Some e, c') \<Rightarrow> (Some e, c')
      | (None, c') \<Rightarrow> for_each f xs c')"

subsection \<open>\<open>draw_cell\<close> and \<open>draw_month_label\<close>\<close>

text \<open>
  \<open>canvas.stringWidth\<close> measures text with the font metrics of the library; it reads
  nothing of the surface's state and is taken as a parameter.
\<close>

type_synonym string_width = "string \<Rightarrow> string \<Rightarrow> real \<Rightarrow> real"

type_synonym cell_cb = "canvas \<Rightarrow> int \<Rightarrow> Geom \<Rightarrow> Font \<Rightarrow> bool \<Rightarrow> outcome"

definition draw_cell :: "string_width \<Rightarrow> cell_cb" where
  "draw_cell stringWidth canvas day rect font ordinals =
     (if day = 0 then (None, canvas)
      else
        let margin = \<lparr>size_width = font_size font * 0.5, size_height = font_size font * 1.3\<rparr>;
            canvas1 = canvas_rect (geom_x rect) (geom_y rect - geom_height rect)
                        (geom_width rect) (geom_height rect) canvas;
            day_str = str day;
            text_x = geom_x rect + size_width margin;
            text_y = geom_y rect - size_height margin;
            canvas2 = drawString text_x text_y day_str canvas1
        in if ordinals then
             (case int_of_str day_str of
                None \<Rightarrow> (Some ValueError, canvas2)
              | Some n \<Rightarrow>
                  (case ORDINALS None of
                     None \<Rightarrow> (Some KeyError, canvas2)
                   | Some dflt \<Rightarrow>
                       let ordinal_str = (case ORDINALS (Some n) of Some v \<Rightarrow> v | None \<Rightarrow> dflt);
                           number_width = stringWidth day_str (font_name font) (font_size font)
                       in (None, drawString (text_x + number_width)
                                   (text_y + size_height margin * 0.1) ordinal_str canvas2)))
           else (None, canvas2))"

definition draw_month_label :: "canvas \<Rightarrow> int \<Rightarrow> int \<Rightarrow> Geom \<Rightarrow> Font \<Rightarrow> outcome" where
  "draw_month_label canvas year month rect font =
     (let margin = \<lparr>size_width = font_size font * 0.5, size_height = font_size font * 1.3\<rparr>;
          text_x = geom_x rect + size_width margin;
          text_y = geom_y rect - size_height margin
      in case month_abbr_get month of
           Inl e \<Rightarrow> (Some e, canvas)
         | Inr abbr \<Rightarrow> (None, drawString text_x text_y (abbr @ '' '' @ str year) canvas))"

subsection \<open>\<open>add_calendar_page\<close>\<close>

text \<open>
  The local values of \<open>add_calendar_page\<close>, each as a function of the \<open>rect\<close> argument
  (and of \<open>rows\<close>, the number of weeks): \<open>scale_factor\<close>, \<open>line_width\<close>, \<open>font\<close>
  (\<open>page_font\<close>), the second binding of \<open>rect\<close> (\<open>inset_rect\<close>), \<open>cellsize\<close>, and the
  \<open>Geom\<close> built for slot \<open>(row, col)\<close> (\<open>cell_rect\<close>), which the cell loop and the label
  build with the same expression.
\<close>

definition scale_factor :: "Geom \<Rightarrow> real" where
  "scale_factor rect = min (geom_width rect) (geom_height rect)"

definition line_width :: "Geom \<Rightarrow> real" where
  "line_width rect = scale_factor rect * 0.0025"

definition page_font :: "Geom \<Rightarrow> Font" where
  "page_font rect = \<lparr>font_name = ''Helvetica'', font_size = scale_factor rect * 0.028\<rparr>"

definition inset_rect :: "Geom \<Rightarrow> Geom" where
  "inset_rect rect =
     \<lparr>geom_x = geom_x rect + line_width rect,
      geom_y = geom_y rect + line_width rect,
      geom_width = geom_width rect - (line_width rect * 2),
      geom_height = geom_height rect - (line_width rect * 2)\<rparr>"

definition cellsize :: "Geom \<Rightarrow> nat \<Rightarrow> Size" where
  "cellsize rect rows =
     \<lparr>size_width = geom_width (inset_rect rect) / 7,
      size_height = geom_height (inset_rect rect) / real rows\<rparr>"

definition cell_rect :: "Geom \<Rightarrow> nat \<Rightarrow> int \<Rightarrow> int \<Rightarrow> Geom" where
  "cell_rect rect rows row col =
     \<lparr>geom_x = geom_x (inset_rect rect) + (size_width (cellsize rect rows) * real_of_int col),
      geom_y = geom_y (inset_rect rect)
                 + (real_of_int (int rows - row) * size_height (cellsize rect rows)),
      geom_width = size_width (cellsize rect rows),
      geom_height = size_height (cellsize rect rows)\<rparr>"

text \<open>Lines 99 and 100: set the module's first weekday, then build the month's grid.\<close>

definition page_calendar ::
  "calendar_module \<Rightarrow> int \<Rightarrow> datetime_obj \<Rightarrow> (exn + int list list) \<times> calendar_module" where
  "page_calendar cm first_weekday datetime_obj =
     (case setfirstweekday first_weekday cm of
        Inl e \<Rightarrow> (Inl e, cm)
      | Inr cm1 \<Rightarrow> (monthcalendar cm1 (dt_year datetime_obj) (dt_month datetime_obj), cm1))"

text \<open>One pass of the inner loop body: the \<open>with\<close> block around the cell callback.\<close>

definition render_cell ::
  "Geom \<Rightarrow> nat \<Rightarrow> cell_cb \<Rightarrow> bool \<Rightarrow> nat \<Rightarrow> nat \<Rightarrow> int \<Rightarrow> canvas \<Rightarrow> outcome" where
  "render_cell rect rows cell_cb ordinals row col day =
     save_state (\<lambda>c.
       let c1 = setFont (font_name (page_font rect)) (font_size (page_font rect)) c;
           c2 = setLineWidth (line_width rect) c1
       in cell_cb c2 day (cell_rect rect rows (int row) (int col)) (page_font rect) ordinals)"

definition render_cells :: "Geom \<Rightarrow> int list list \<Rightarrow> cell_cb \<Rightarrow> bool \<Rightarrow> canvas \<Rightarrow> outcome" where
  "render_cells rect cal cell_cb ordinals =
     for_each (\<lambda>(row, week).
        for_each (\<lambda>(col, day). render_cell rect (length cal) cell_cb ordinals row col day)
          (enumerate 0 week))
       (enumerate 0 cal)"

text \<open>
  The slot of the month label: \<open>(0, 0) if cal[0][0] == 0 else (rows - 1, 6)\<close>.
  Reading \<open>cal[0][0]\<close> raises when there is no such entry.
\<close>

definition label_slot :: "int list list \<Rightarrow> exn + (int \<times> int)" where
  "label_slot cal =
     (case cal of
        [] \<Rightarrow> Inl IndexError
      | week # _ \<Rightarrow>
          (case week of
             [] \<Rightarrow> Inl IndexError
           | day # _ \<Rightarrow> Inr (if day = 0 then (0, 0) else (int (length cal) - 1, 6))))"

definition render_label :: "Geom \<Rightarrow> int list list \<Rightarrow> datetime_obj \<Rightarrow> canvas \<Rightarrow> outcome" where
  "render_label rect cal datetime_obj =
     save_state (\<lambda>c.
       let c1 = setFont (font_name (page_font rect)) (font_size (page_font rect)) c;
           c2 = setLineWidth (line_width rect) c1
       in case label_slot cal of
            Inl e \<Rightarrow> (Some e, c2)
          | Inr (row, col) \<Rightarrow>
              draw_month_label c2 (dt_year datetime_obj) (dt_month datetime_obj)
                (cell_rect rect (length cal) row col) (page_font rect))"

text \<open>
  The result is the exception (if any), the surface and the state of the calendar
  module. \<open>rect.height / rows\<close> raises for an empty grid.
\<close>

definition add_calendar_page ::
  "calendar_module \<Rightarrow> canvas \<Rightarrow> Geom \<Rightarrow> datetime_obj \<Rightarrow> cell_cb \<Rightarrow> bool \<Rightarrow> int
     \<Rightarrow> exn option \<times> canvas \<times> calendar_module" where
  "add_calendar_page cm canvas rect datetime_obj cell_cb ordinals first_weekday =
     (case page_calendar cm first_weekday datetime_obj of
        (Inl e, cm1) \<Rightarrow> (Some e, canvas, cm1)
      | (Inr cal, cm1) \<Rightarrow>
          if length cal = 0 then (Some ZeroDivisionError, canvas, cm1)
          else
            (case render_cells rect cal cell_cb ordinals canvas of
               (Some e, c1) \<Rightarrow> (Some e, c1, cm1)
             | (None, c1) \<Rightarrow>
                 (case render_label rect cal datetime_obj c1 of
                    (Some e, c2) \<Rightarrow> (Some e, c2, cm1)
                  | (None, c2) \<Rightarrow> (None, showPage c2, cm1))))"

subsection \<open>\<open>generate_pdf\<close>\<close>

definition generate_pdf ::
  "string_width \<Rightarrow> calendar_module \<Rightarrow> datetime_obj \<Rightarrow> string \<Rightarrow> Size \<Rightarrow> bool \<Rightarrow> int
     \<Rightarrow> exn option \<times> canvas \<times> calendar_module" where
  "generate_pdf stringWidth cm datetime_obj outfile pagesize ordinals first_weekday =
     (let canvas = Canvas outfile pagesize;
          wmar = size_width pagesize / 50;
          hmar = size_height pagesize / 50;
          inner = \<lparr>size_width = size_width pagesize - (2 * wmar),
                   size_height = size_height pagesize - (2 * hmar)\<rparr>
      in case add_calendar_page cm canvas
                \<lparr>geom_x = wmar, geom_y = hmar,
                 geom_width = size_width inner, geom_height = size_height inner\<rparr>
                datetime_obj (draw_cell stringWidth) ordinals first_weekday of
           (Some e, c, cm1) \<Rightarrow> (Some e, c, cm1)
         | (None, c, cm1) \<Rightarrow> (None, save c, cm1))"

subsection \<open>Stand-ins for worked examples\<close>

text \<open>
  A stand-in for the library's font metrics (every glyph 0.6 of the font size wide), and
  a cell callback that draws the border and then fails. They are only used to run the
  program on concrete inputs.
\<close>

definition fixed_pitch_width :: string_width where
  "fixed_pitch_width text fontName fontSize = real (length text) * fontSize * 0.6"


section \<open>The month grid\<close>

text \<open>Slicing a list whose length is a multiple of seven gives full weeks only.\<close>

lemma concat_week_slices_take:
  "concat (map (\<lambda>k. take 7 (drop (7 * k) xs)) [0 ..< m]) = take (7 * m) xs"
proof (induction m)
  case 0
  show ?case by simp
next
  case (Suc m)
  have "7 * Suc m = 7 * m + 7" by simp
  then have "take (7 * Suc m) xs = take (7 * m) xs @ take 7 (drop (7 * m) xs)"
    by (simp only: take_add)
  with Suc show ?case by simp
qed

lemma week_slices_exact:
  assumes "length days = 7 * m"
  shows "concat (week_slices days) = days"
    and "length (week_slices days) = m"
    and "\<forall>week \<in> set (week_slices days). length week = 7"
proof -
  have n: "(length days + 6) div 7 = m" using assms by simp
  show "concat (week_slices days) = days"
    unfolding week_slices_def n by (simp add: concat_week_slices_take assms)
  show "length (week_slices days) = m"
    unfolding week_slices_def n by simp
  show "\<forall>week \<in> set (week_slices days). length week = 7"
    unfolding week_slices_def n using assms by auto
qed

lemma month_cases:
  fixes month :: int
  assumes "1 \<le> month" "month \<le> 12"
  shows "month = 1 \<or> month = 2 \<or> month = 3 \<or> month = 4 \<or> month = 5 \<or> month = 6
       \<or> month = 7 \<or> month = 8 \<or> month = 9 \<or> month = 10 \<or> month = 11 \<or> month = 12"
  using assms by arith

text \<open>For a month in range, \<open>monthrange\<close> returns the weekday of the 1st and the
  month's length by the Gregorian rule.\<close>

lemma weekday_range: "0 \<le> weekday year month day" "weekday year month day < 7"
  by (simp_all add: weekday_def Let_def)

lemma monthrange_eq:
  assumes "1 \<le> month" "month \<le> 12"
  shows "monthrange year month =
           Inr (weekday year month 1,
                if month = 2 then (if isleap year then 29 else 28)
                else if month \<in> {4, 6, 9, 11} then 30 else 31)"
  using month_cases [OF assms]
  by (elim disjE) (simp_all add: monthrange_def Let_def February_def mdays_def)

lemma monthrange_valid:
  assumes "1 \<le> month" "month \<le> 12"
  shows "\<exists>day1 ndays. monthrange year month = Inr (day1, ndays)
           \<and> day1 = weekday year month 1 \<and> 0 \<le> day1 \<and> day1 < 7 \<and> 28 \<le> ndays \<and> ndays \<le> 31
           \<and> ndays = (if month = 2 then (if isleap year then 29 else 28)
                       else if month \<in> {4, 6, 9, 11} then 30 else 31)"
  unfolding monthrange_eq [OF assms] using weekday_range [of year month 1] by simp

text \<open>The padding before and after the days completes whole weeks: four, five or six.\<close>

lemma pad_arith:
  fixes d f n :: int
  assumes "28 \<le> n" "n \<le> 31"
  shows "\<exists>m. nat ((d - f) mod 7) + nat n + nat ((f - d - n) mod 7) = 7 * m
             \<and> 4 \<le> m \<and> m \<le> (6::nat)"
proof -
  define a where "a = (d - f) mod 7"
  define b where "b = (f - d - n) mod 7"
  have a: "0 \<le> a" "a < 7" and b: "0 \<le> b" "b < 7" by (simp_all add: a_def b_def)
  have "(a + n + b) mod 7 = ((d - f) + n + (f - d - n)) mod 7"
    unfolding a_def b_def by (simp add: mod_simps)
  then have "(a + n + b) mod 7 = 0" by simp
  then obtain k where k: "a + n + b = 7 * k" by (auto simp: mod_eq_0_iff_dvd)
  with a b assms have "4 \<le> k" "k \<le> 6" by linarith+
  have "nat a + nat n + nat b = nat (a + n + b)" using a b assms by simp
  also have "\<dots> = 7 * nat k" using k \<open>4 \<le> k\<close> by simp
  finally show ?thesis unfolding a_def b_def using \<open>4 \<le> k\<close> \<open>k \<le> 6\<close>
    by (intro exI[of _ "nat k"]) auto
qed

lemma filter_month_days:
  fixes n :: int
  shows "filter (\<lambda>day. day \<noteq> 0) (replicate a 0 @ [1..n] @ replicate b 0) = [1..n]"
proof -
  have "filter (\<lambda>day. day \<noteq> 0) [1..n] = [1..n]" by (rule filter_True) auto
  then show ?thesis by simp
qed

lemma monthcalendar_shape:
  assumes "1 \<le> month" "month \<le> 12"
  shows "\<exists>cal day1 ndays.
           monthcalendar cm year month = Inr cal
         \<and> monthrange year month = Inr (day1, ndays)
         \<and> 28 \<le> ndays \<and> ndays \<le> 31
         \<and> (\<forall>week \<in> set cal. length week = 7)
         \<and> 4 \<le> length cal \<and> length cal \<le> 6
         \<and> concat cal = replicate (nat ((day1 - getfirstweekday cm) mod 7)) 0 @ [1..ndays]
                          @ replicate (nat ((getfirstweekday cm - day1 - ndays) mod 7)) 0"
proof -
  from monthrange_valid [OF assms, of year] obtain day1 ndays where
    mr: "monthrange year month = Inr (day1, ndays)" and nd: "28 \<le> ndays" "ndays \<le> 31"
    by blast
  define f where "f = getfirstweekday cm"
  define days where
    "days = replicate (nat ((day1 - f) mod 7)) (0::int) @ [1..ndays]
              @ replicate (nat ((f - day1 - ndays) mod 7)) 0"
  have it: "itermonthdays cm year month = Inr days"
    by (simp add: itermonthdays_def mr Let_def days_def f_def)
  from pad_arith [OF nd, of day1 f] obtain m where
    m: "nat ((day1 - f) mod 7) + nat ndays + nat ((f - day1 - ndays) mod 7) = 7 * m"
    and mb: "4 \<le> m" "m \<le> 6" by blast
  have len: "length days = 7 * m" using m nd by (simp add: days_def)
  have mc: "monthcalendar cm year month = Inr (week_slices days)"
    by (simp add: monthcalendar_def it)
  show ?thesis
    using mc mr nd mb week_slices_exact [OF len] by (simp add: days_def f_def)
qed

lemma setfirstweekday_valid:
  assumes "0 \<le> first_weekday" "first_weekday \<le> 6"
  shows "setfirstweekday first_weekday cm = Inr (cm\<lparr>c_firstweekday := first_weekday\<rparr>)"
    and "getfirstweekday (cm\<lparr>c_firstweekday := first_weekday\<rparr>) = first_weekday"
  using assms by (simp_all add: setfirstweekday_def getfirstweekday_def MONDAY_def SUNDAY_def)

lemma page_calendar_valid:
  assumes "1 \<le> dt_month d" "dt_month d \<le> 12" "0 \<le> first_weekday" "first_weekday \<le> 6"
  shows "page_calendar cm first_weekday d =
           (monthcalendar (cm\<lparr>c_firstweekday := first_weekday\<rparr>) (dt_year d) (dt_month d),
            cm\<lparr>c_firstweekday := first_weekday\<rparr>)"
  by (simp add: page_calendar_def setfirstweekday_valid [OF assms(3,4)])

text \<open>
  C1. For a month in \<open>1..12\<close> (any year) and a first weekday in \<open>0..6\<close>, the grid that
  \<open>add_calendar_page\<close> builds (its lines 99 and 100) has seven entries in every row and
  four to six rows; read row by row it is some zeros (as many as the 1st lies after the
  first weekday), then the days \<open>1..N\<close> in order, then fewer than seven zeros, where
  \<open>N\<close> is the length of the month; so its non-zero entries are exactly \<open>1..N\<close>, each
  once.
\<close>

theorem add_calendar_page_grid:
  assumes "1 \<le> dt_month d" "dt_month d \<le> 12" "0 \<le> first_weekday" "first_weekday \<le> 6"
  shows "\<exists>cal day1 ndays.
           page_calendar cm first_weekday d = (Inr cal, cm\<lparr>c_firstweekday := first_weekday\<rparr>)
         \<and> monthrange (dt_year d) (dt_month d) = Inr (day1, ndays)
         \<and> ndays = (if dt_month d = 2 then (if isleap (dt_year d) then 29 else 28)
                     else if dt_month d \<in> {4, 6, 9, 11} then 30 else 31)
         \<and> (\<forall>week \<in> set cal. length week = 7)
         \<and> 4 \<le> length cal \<and> length cal \<le> 6
         \<and> concat cal = replicate (nat ((day1 - first_weekday) mod 7)) 0 @ [1..ndays]
                          @ replicate (nat ((first_weekday - day1 - ndays) mod 7)) 0
         \<and> nat ((day1 - first_weekday) mod 7) < 7
         \<and> nat ((first_weekday - day1 - ndays) mod 7) < 7
         \<and> filter (\<lambda>day. day \<noteq> 0) (concat cal) = [1..ndays]
         \<and> distinct (filter (\<lambda>day. day \<noteq> 0) (concat cal))"
proof -
  let ?cm = "cm\<lparr>c_firstweekday := first_weekday\<rparr>"
  from monthcalendar_shape [OF assms(1,2), of ?cm "dt_year d"] obtain cal day1 ndays where
    mc: "monthcalendar ?cm (dt_year d) (dt_month d) = Inr cal"
    and mr: "monthrange (dt_year d) (dt_month d) = Inr (day1, ndays)"
    and rows: "\<forall>week \<in> set cal. length week = 7" "4 \<le> length cal" "length cal \<le> 6"
    and cc: "concat cal = replicate (nat ((day1 - getfirstweekday ?cm) mod 7)) 0 @ [1..ndays]
                          @ replicate (nat ((getfirstweekday ?cm - day1 - ndays) mod 7)) 0"
    by blast
  have fw: "getfirstweekday ?cm = first_weekday"
    by (rule setfirstweekday_valid [OF assms(3,4)])
  have nd: "ndays = (if dt_month d = 2 then (if isleap (dt_year d) then 29 else 28)
                     else if dt_month d \<in> {4, 6, 9, 11} then 30 else 31)"
    using monthrange_valid [OF assms(1,2), of "dt_year d"] mr by simp
  have pc: "page_calendar cm first_weekday d = (Inr cal, ?cm)"
    by (simp add: page_calendar_valid [OF assms] mc)
  have cc': "concat cal = replicate (nat ((day1 - first_weekday) mod 7)) 0 @ [1..ndays]
                          @ replicate (nat ((first_weekday - day1 - ndays) mod 7)) 0"
    using cc by (simp only: fw)
  have fl: "filter (\<lambda>day. day \<noteq> 0) (concat cal) = [1..ndays]"
    by (simp only: cc' filter_month_days)
  have pads: "nat ((day1 - first_weekday) mod 7) < 7"
    "nat ((first_weekday - day1 - ndays) mod 7) < 7" by simp_all
  have dist: "distinct (filter (\<lambda>day. day \<noteq> 0) (concat cal))"
    by (simp only: fl distinct_upto)
  show ?thesis
    using pc mr nd rows cc' pads fl dist by blast
qed

theorem add_calendar_page_grid_witness:
  "1 \<le> dt_month \<lparr>dt_year = 2024, dt_month = 1\<rparr>
   \<and> dt_month \<lparr>dt_year = 2024, dt_month = 1\<rparr> \<le> 12 \<and> (0::int) \<le> 6 \<and> (6::int) \<le> 6
   \<and> (\<exists>cal day1 ndays.
         page_calendar \<lparr>c_firstweekday = 0\<rparr> 6 \<lparr>dt_year = 2024, dt_month = 1\<rparr>
           = (Inr cal, \<lparr>c_firstweekday = 6\<rparr>)
       \<and> monthrange 2024 1 = Inr (day1, ndays)
       \<and> ndays = 31
       \<and> (\<forall>week \<in> set cal. length week = 7)
       \<and> 4 \<le> length cal \<and> length cal \<le> 6
       \<and> concat cal = replicate (nat ((day1 - 6) mod 7)) 0 @ [1..ndays]
                        @ replicate (nat ((6 - day1 - ndays) mod 7)) 0
       \<and> filter (\<lambda>day. day \<noteq> 0) (concat cal) = [1..ndays])"
proof -
  let ?d = "\<lparr>dt_year = 2024, dt_month = 1\<rparr>"
  have h: "1 \<le> dt_month ?d" "dt_month ?d \<le> 12" "(0::int) \<le> 6" "(6::int) \<le> 6"
    by simp_all
  from add_calendar_page_grid [OF h, of "\<lparr>c_firstweekday = 0\<rparr>"]
  obtain cal day1 ndays where
    "page_calendar \<lparr>c_firstweekday = 0\<rparr> 6 ?d = (Inr cal, \<lparr>c_firstweekday = 6\<rparr>)"
    "monthrange 2024 1 = Inr (day1, ndays)" "ndays = 31"
    "\<forall>week \<in> set cal. length week = 7" "4 \<le> length cal" "length cal \<le> 6"
    "concat cal = replicate (nat ((day1 - 6) mod 7)) 0 @ [1..ndays]
                        @ replicate (nat ((6 - day1 - ndays) mod 7)) 0"
    "filter (\<lambda>day. day \<noteq> 0) (concat cal) = [1..ndays]"
    by auto
  with h show ?thesis by blast
qed

section \<open>The label slot\<close>



















section \<open>Scale, inset and cell size\<close>

text \<open>
  C4. For every target rectangle: \<open>scale_factor\<close> is the smaller of its width and
  height, the stroke width is \<open>scale_factor * 0.0025\<close>, the font is Helvetica at
  \<open>scale_factor * 0.028\<close>; the rectangle used from then on is the target moved in by the
  stroke width on all four sides, and the cell size is computed from it; every cell
  block sets this font and stroke width on the surface and hands the callback the cell
  rectangle computed from the inset rectangle. Two rectangles with the same smaller
  dimension get the same stroke width and font.
\<close>

theorem page_scale_and_inset:
  "scale_factor rect = min (geom_width rect) (geom_height rect)
   \<and> line_width rect = min (geom_width rect) (geom_height rect) * 0.0025
   \<and> page_font rect =
       \<lparr>font_name = ''Helvetica'', font_size = min (geom_width rect) (geom_height rect) * 0.028\<rparr>
   \<and> inset_rect rect =
       \<lparr>geom_x = geom_x rect + line_width rect, geom_y = geom_y rect + line_width rect,
        geom_width = geom_width rect - 2 * line_width rect,
        geom_height = geom_height rect - 2 * line_width rect\<rparr>
   \<and> geom_x (inset_rect rect) + geom_width (inset_rect rect)
       = geom_x rect + geom_width rect - line_width rect
   \<and> geom_y (inset_rect rect) + geom_height (inset_rect rect)
       = geom_y rect + geom_height rect - line_width rect
   \<and> cellsize rect rows =
       \<lparr>size_width = (geom_width rect - 2 * line_width rect) / 7,
        size_height = (geom_height rect - 2 * line_width rect) / real rows\<rparr>
   \<and> render_cell rect rows cell_cb ordinals row col day c =
       save_state (\<lambda>c'.
         cell_cb
           (setLineWidth (min (geom_width rect) (geom_height rect) * 0.0025)
              (setFont ''Helvetica'' (min (geom_width rect) (geom_height rect) * 0.028) c'))
           day
           \<lparr>geom_x = geom_x rect + line_width rect
                      + (geom_width rect - 2 * line_width rect) / 7 * real col,
            geom_y = geom_y rect + line_width rect
                      + real_of_int (int rows - int row)
                        * ((geom_height rect - 2 * line_width rect) / real rows),
            geom_width = (geom_width rect - 2 * line_width rect) / 7,
            geom_height = (geom_height rect - 2 * line_width rect) / real rows\<rparr>
           \<lparr>font_name = ''Helvetica'',
            font_size = min (geom_width rect) (geom_height rect) * 0.028\<rparr>
           ordinals) c
   \<and> (min (geom_width rect') (geom_height rect') = min (geom_width rect) (geom_height rect)
        \<longrightarrow> line_width rect' = line_width rect \<and> page_font rect' = page_font rect)"
  by (simp add: scale_factor_def line_width_def page_font_def inset_rect_def cellsize_def
      render_cell_def cell_rect_def Let_def)

theorem page_scale_and_inset_witness:
  "min (geom_width \<lparr>geom_x = 10, geom_y = 20, geom_width = 612, geom_height = 700\<rparr>)
       (geom_height \<lparr>geom_x = 10, geom_y = 20, geom_width = 612, geom_height = 700\<rparr>)
     = min (geom_width \<lparr>geom_x = 0, geom_y = 0, geom_width = 792, geom_height = 612\<rparr>)
           (geom_height \<lparr>geom_x = 0, geom_y = 0, geom_width = 792, geom_height = 612\<rparr>)
   \<and> line_width \<lparr>geom_x = 10, geom_y = 20, geom_width = 612, geom_height = 700\<rparr>
       = line_width \<lparr>geom_x = 0, geom_y = 0, geom_width = 792, geom_height = 612\<rparr>
   \<and> page_font \<lparr>geom_x = 10, geom_y = 20, geom_width = 612, geom_height = 700\<rparr>
       = page_font \<lparr>geom_x = 0, geom_y = 0, geom_width = 792, geom_height = 612\<rparr>
   \<and> line_width \<lparr>geom_x = 0, geom_y = 0, geom_width = 792, geom_height = 612\<rparr> = 1.53"
  using page_scale_and_inset
    [of "\<lparr>geom_x = 0, geom_y = 0, geom_width = 792, geom_height = 612\<rparr>" _ _ _ _ _ _ _
        "\<lparr>geom_x = 10, geom_y = 20, geom_width = 612, geom_height = 700\<rparr>"]
  by simp

text \<open>
  C8. Doubling the width and the height of the target rectangle doubles the stroke width,
  the font size, the cell width and height (of \<open>cellsize\<close> and of every cell
  rectangle) and every cell's offset from the target's origin; the typeface and the
  ratios between these quantities stay the same.
\<close>

theorem layout_doubles:
  "line_width (rect\<lparr>geom_width := 2 * geom_width rect, geom_height := 2 * geom_height rect\<rparr>)
     = 2 * line_width rect
   \<and> font_size (page_font (rect\<lparr>geom_width := 2 * geom_width rect,
                                 geom_height := 2 * geom_height rect\<rparr>))
     = 2 * font_size (page_font rect)
   \<and> font_name (page_font (rect\<lparr>geom_width := 2 * geom_width rect,
                                 geom_height := 2 * geom_height rect\<rparr>))
     = font_name (page_font rect)
   \<and> size_width (cellsize (rect\<lparr>geom_width := 2 * geom_width rect,
                                 geom_height := 2 * geom_height rect\<rparr>) rows)
     = 2 * size_width (cellsize rect rows)
   \<and> size_height (cellsize (rect\<lparr>geom_width := 2 * geom_width rect,
                                  geom_height := 2 * geom_height rect\<rparr>) rows)
     = 2 * size_height (cellsize rect rows)
   \<and> geom_width (cell_rect (rect\<lparr>geom_width := 2 * geom_width rect,
                                  geom_height := 2 * geom_height rect\<rparr>) rows row col)
     = 2 * geom_width (cell_rect rect rows row col)
   \<and> geom_height (cell_rect (rect\<lparr>geom_width := 2 * geom_width rect,
                                   geom_height := 2 * geom_height rect\<rparr>) rows row col)
     = 2 * geom_height (cell_rect rect rows row col)
   \<and> geom_x (cell_rect (rect\<lparr>geom_width := 2 * geom_width rect,
                              geom_height := 2 * geom_height rect\<rparr>) rows row col) - geom_x rect
     = 2 * (geom_x (cell_rect rect rows row col) - geom_x rect)
   \<and> geom_y (cell_rect (rect\<lparr>geom_width := 2 * geom_width rect,
                              geom_height := 2 * geom_height rect\<rparr>) rows row col) - geom_y rect
     = 2 * (geom_y (cell_rect rect rows row col) - geom_y rect)
   \<and> size_width (cellsize (rect\<lparr>geom_width := 2 * geom_width rect,
                                 geom_height := 2 * geom_height rect\<rparr>) rows)
       / font_size (page_font (rect\<lparr>geom_width := 2 * geom_width rect,
                                      geom_height := 2 * geom_height rect\<rparr>))
     = size_width (cellsize rect rows) / font_size (page_font rect)
   \<and> size_height (cellsize (rect\<lparr>geom_width := 2 * geom_width rect,
                                  geom_height := 2 * geom_height rect\<rparr>) rows)
       / font_size (page_font (rect\<lparr>geom_width := 2 * geom_width rect,
                                      geom_height := 2 * geom_height rect\<rparr>))
     = size_height (cellsize rect rows) / font_size (page_font rect)
   \<and> line_width (rect\<lparr>geom_width := 2 * geom_width rect, geom_height := 2 * geom_height rect\<rparr>)
       / font_size (page_font (rect\<lparr>geom_width := 2 * geom_width rect,
                                      geom_height := 2 * geom_height rect\<rparr>))
     = line_width rect / font_size (page_font rect)
   \<and> size_width (cellsize (rect\<lparr>geom_width := 2 * geom_width rect,
                                 geom_height := 2 * geom_height rect\<rparr>) rows)
       / size_height (cellsize (rect\<lparr>geom_width := 2 * geom_width rect,
                                       geom_height := 2 * geom_height rect\<rparr>) rows)
     = size_width (cellsize rect rows) / size_height (cellsize rect rows)"
proof -
  define r2 where
    "r2 = rect\<lparr>geom_width := 2 * geom_width rect, geom_height := 2 * geom_height rect\<rparr>"
  have sf: "scale_factor r2 = 2 * scale_factor rect"
    by (simp add: r2_def scale_factor_def min_def)
  have lw: "line_width r2 = 2 * line_width rect"
    by (simp add: line_width_def sf)
  have fs: "font_size (page_font r2) = 2 * font_size (page_font rect)"
    and fn: "font_name (page_font r2) = font_name (page_font rect)"
    by (simp_all add: page_font_def sf)
  have iw: "geom_width (inset_rect r2) = 2 * geom_width (inset_rect rect)"
    and ih: "geom_height (inset_rect r2) = 2 * geom_height (inset_rect rect)"
    and ix: "geom_x (inset_rect r2) = 2 * (geom_x (inset_rect rect) - geom_x rect) + geom_x rect"
    and iy: "geom_y (inset_rect r2) = 2 * (geom_y (inset_rect rect) - geom_y rect) + geom_y rect"
    by (simp_all add: inset_rect_def lw) (simp_all add: r2_def)
  have cw: "size_width (cellsize r2 rows) = 2 * size_width (cellsize rect rows)"
    and ch: "size_height (cellsize r2 rows) = 2 * size_height (cellsize rect rows)"
    by (simp_all add: cellsize_def iw ih)
  have gw: "geom_width (cell_rect r2 rows row col) = 2 * geom_width (cell_rect rect rows row col)"
    and gh: "geom_height (cell_rect r2 rows row col) = 2 * geom_height (cell_rect rect rows row col)"
    by (simp_all add: cell_rect_def cw ch)
  have gx: "geom_x (cell_rect r2 rows row col) - geom_x rect
              = 2 * (geom_x (cell_rect rect rows row col) - geom_x rect)"
    by (simp add: cell_rect_def cw ix algebra_simps)
  have gy: "geom_y (cell_rect r2 rows row col) - geom_y rect
              = 2 * (geom_y (cell_rect rect rows row col) - geom_y rect)"
    by (simp add: cell_rect_def ch iy algebra_simps)
  have ratio: "(2 * a) / (2 * b) = a / b" for a b :: real by simp
  show ?thesis
    unfolding r2_def [symmetric]
    by (simp only: lw fs fn cw ch gw gh gx gy ratio simp_thms)
qed

section \<open>The cell renderer\<close>

lemma digit_val_digit_char:
  assumes "d < 10"
  shows "digit_val (digit_char d) = Some d"
proof -
  from assms have "d = 0 \<or> d = 1 \<or> d = 2 \<or> d = 3 \<or> d = 4 \<or> d = 5 \<or> d = 6 \<or> d = 7
      \<or> d = 8 \<or> d = 9" by arith
  then show ?thesis
    by (elim disjE) (simp_all add: digit_val_def digit_char_def)
qed

lemma parse_digits_append:
  "parse_digits acc (xs @ ys) =
     (case parse_digits acc xs of None \<Rightarrow> None | Some a \<Rightarrow> parse_digits a ys)"
  by (induction xs arbitrary: acc) (simp_all split: option.splits)

lemma parse_digits_digits: "parse_digits 0 (digits n) = Some n"
proof (induction n rule: digits.induct)
  case (1 n)
  show ?case
  proof (cases "n < 10")
    case True
    then show ?thesis by (simp add: digits.simps [of n] digit_val_digit_char)
  next
    case False
    with 1 have ih: "parse_digits 0 (digits (n div 10)) = Some (n div 10)" by simp
    have "n mod 10 < 10" by simp
    then have dv: "digit_val (digit_char (n mod 10)) = Some (n mod 10)"
      by (rule digit_val_digit_char)
    show ?thesis using False
      by (simp add: digits.simps [of n] parse_digits_append ih dv)
  qed
qed

lemma digits_not_minus: "digits n \<noteq> [] \<and> hd (digits n) \<noteq> CHR ''-''"
proof (induction n rule: digits.induct)
  case (1 n)
  show ?case
  proof (cases "n < 10")
    case True
    then have "digit_val (digit_char n) = Some n" by (rule digit_val_digit_char)
    then have "digit_char n \<noteq> CHR ''-''" by (auto simp: digit_val_def)
    with True show ?thesis by (simp add: digits.simps [of n])
  next
    case False
    with 1 show ?thesis by (simp add: digits.simps [of n])
  qed
qed

lemma int_of_str_str: "int_of_str (str n) = Some n"
proof (cases "n < 0")
  case True
  have "digits (nat (- n)) \<noteq> []" using digits_not_minus by blast
  with True show ?thesis
    by (simp add: int_of_str_def str_def parse_digits_digits)
next
  case False
  obtain ch cs where d: "digits (nat n) = ch # cs" and "ch \<noteq> CHR ''-''"
    using digits_not_minus [of "nat n"] by (cases "digits (nat n)") auto
  have "parse_digits 0 (ch # cs) = Some (nat n)"
    using parse_digits_digits [of "nat n"] by (simp only: d)
  with False d \<open>ch \<noteq> CHR ''-''\<close> show ?thesis
    by (simp add: int_of_str_def str_def del: parse_digits.simps)
qed


lemma ORDINALS_default: "ORDINALS None = Some ''th''"
  by (simp add: ORDINALS_def)

text \<open>
  C5. With ordinals enabled, for every day other than 0 (so for \<open>1..31\<close>) \<open>draw_cell\<close>
  draws the border, the day number, and then the suffix found under the day in
  \<open>ORDINALS\<close>, or \<open>th\<close> (the entry under \<open>None\<close>) when the day is absent; the suffix is
  drawn at the number's x plus the measured width of the number, and at the number's y
  plus 0.1 times the margin height \<open>1.3 * font size\<close>. Days 1, 2, 3, 4, 11, 21, 22, 23,
  31 get st, nd, rd, th, th, st, nd, rd, st.
\<close>

theorem draw_cell_ordinal:
  "(day \<noteq> 0 \<longrightarrow>
      draw_cell stringWidth canvas day rect font True =
        (None,
         drawString
           (geom_x rect + font_size font * 0.5
              + stringWidth (str day) (font_name font) (font_size font))
           (geom_y rect - font_size font * 1.3 + font_size font * 1.3 * 0.1)
           (case ORDINALS (Some day) of Some v \<Rightarrow> v | None \<Rightarrow> ''th'')
           (drawString (geom_x rect + font_size font * 0.5) (geom_y rect - font_size font * 1.3)
              (str day)
              (canvas_rect (geom_x rect) (geom_y rect - geom_height rect)
                 (geom_width rect) (geom_height rect) canvas))))
   \<and> map (\<lambda>d. case ORDINALS (Some d) of Some v \<Rightarrow> v | None \<Rightarrow> ''th'')
         [1, 2, 3, 4, 11, 21, 22, 23, 31]
       = [''st'', ''nd'', ''rd'', ''th'', ''th'', ''st'', ''nd'', ''rd'', ''st'']
   \<and> ORDINALS None = Some ''th''
   \<and> (day \<notin> {1, 2, 3, 21, 22, 23, 31} \<longrightarrow>
        (case ORDINALS (Some day) of Some v \<Rightarrow> v | None \<Rightarrow> ''th'') = ''th'')"
proof (intro conjI impI)
  assume "day \<noteq> 0"
  then show "draw_cell stringWidth canvas day rect font True =
        (None,
         drawString
           (geom_x rect + font_size font * 0.5
              + stringWidth (str day) (font_name font) (font_size font))
           (geom_y rect - font_size font * 1.3 + font_size font * 1.3 * 0.1)
           (case ORDINALS (Some day) of Some v \<Rightarrow> v | None \<Rightarrow> ''th'')
           (drawString (geom_x rect + font_size font * 0.5) (geom_y rect - font_size font * 1.3)
              (str day)
              (canvas_rect (geom_x rect) (geom_y rect - geom_height rect)
                 (geom_width rect) (geom_height rect) canvas)))"
    by (simp add: draw_cell_def Let_def int_of_str_str ORDINALS_default)
next
  show "map (\<lambda>d. case ORDINALS (Some d) of Some v \<Rightarrow> v | None \<Rightarrow> ''th'')
         [1, 2, 3, 4, 11, 21, 22, 23, 31]
       = [''st'', ''nd'', ''rd'', ''th'', ''th'', ''st'', ''nd'', ''rd'', ''st'']"
    by (simp add: ORDINALS_def)
next
  show "ORDINALS None = Some ''th''" by (rule ORDINALS_default)
next
  assume "day \<notin> {1, 2, 3, 21, 22, 23, 31}"
  then show "(case ORDINALS (Some day) of Some v \<Rightarrow> v | None \<Rightarrow> ''th'') = ''th''"
    by (simp add: ORDINALS_def)
qed

theorem draw_cell_ordinal_witness:
  "(21::int) \<noteq> 0
   \<and> draw_cell (\<lambda>text name fs. real (length text) * fs / 2)
        (Canvas ''calendar.pdf'' \<lparr>size_width = 792, size_height = 612\<rparr>) 21
        \<lparr>geom_x = 100, geom_y = 500, geom_width = 110, geom_height = 120\<rparr>
        \<lparr>font_name = ''Helvetica'', font_size = 10\<rparr> True
     = (None,
        (Canvas ''calendar.pdf'' \<lparr>size_width = 792, size_height = 612\<rparr>)
          \<lparr>cv_calls := [Rect 100 380 110 120, DrawString 105 487 ''21'',
                        DrawString 115 488.3 ''st'']\<rparr>)
   \<and> (4::int) \<notin> {1, 2, 3, 21, 22, 23, 31}
   \<and> (case ORDINALS (Some 4) of Some v \<Rightarrow> v | None \<Rightarrow> ''th'') = ''th''"
proof -
  have s: "str 21 = ''21''" by (simp add: str_def digits.simps digit_char_def)
  have o: "ORDINALS (Some 21) = Some ''st''" by (simp add: ORDINALS_def)
  have h: "(21::int) \<noteq> 0" by simp
  have h4: "(4::int) \<notin> {1, 2, 3, 21, 22, 23, 31}" by simp
  from draw_cell_ordinal [THEN conjunct1, rule_format, OF h]
  have "draw_cell (\<lambda>text name fs. real (length text) * fs / 2)
        (Canvas ''calendar.pdf'' \<lparr>size_width = 792, size_height = 612\<rparr>) 21
        \<lparr>geom_x = 100, geom_y = 500, geom_width = 110, geom_height = 120\<rparr>
        \<lparr>font_name = ''Helvetica'', font_size = 10\<rparr> True
     = (None,
        (Canvas ''calendar.pdf'' \<lparr>size_width = 792, size_height = 612\<rparr>)
          \<lparr>cv_calls := [Rect 100 380 110 120, DrawString 105 487 ''21'',
                        DrawString 115 488.3 ''st'']\<rparr>)"
    by (simp add: s o Canvas_def drawString_def canvas_rect_def)
  moreover from draw_cell_ordinal [THEN conjunct2, THEN conjunct2, THEN conjunct2, rule_format, OF h4]
  have "(case ORDINALS (Some 4) of Some v \<Rightarrow> v | None \<Rightarrow> ''th'') = ''th''" .
  ultimately show ?thesis using h h4 by blast
qed

text \<open>
  C6. For every cell rectangle, font and ordinals flag, \<open>draw_cell\<close> with day 0 returns
  the surface as it received it: no call is recorded. Around it, the cell block of
  \<open>add_calendar_page\<close> records only the save, the two parameter settings and the
  restore; no rectangle and no text.
\<close>

theorem draw_cell_empty:
  "draw_cell stringWidth canvas 0 rect font ordinals = (None, canvas)
   \<and> cv_calls (snd (draw_cell stringWidth canvas 0 rect font ordinals)) = cv_calls canvas
   \<and> render_cell page_rect rows (draw_cell stringWidth) ordinals row col 0 canvas =
       (None, canvas\<lparr>cv_calls := cv_calls canvas
                        @ [SaveState, SetFont ''Helvetica'' (font_size (page_font page_rect)),
                           SetLineWidth (line_width page_rect), RestoreState]\<rparr>)"
  by (simp add: draw_cell_def render_cell_def save_state_def saveState_def restoreState_def
      setFont_def setLineWidth_def page_font_def Let_def)

section \<open>State outside the canvas\<close>

lemma calendar_module_update:
  fixes cm :: calendar_module
  shows "cm\<lparr>c_firstweekday := first_weekday\<rparr> = \<lparr>c_firstweekday = first_weekday\<rparr>"
  by (cases cm) simp

lemma page_calendar_result:
  "fst (page_calendar cm first_weekday d) =
     (if 0 \<le> first_weekday \<and> first_weekday \<le> 6
      then monthcalendar \<lparr>c_firstweekday = first_weekday\<rparr> (dt_year d) (dt_month d)
      else Inl (IllegalWeekdayError first_weekday))"
  "snd (page_calendar cm first_weekday d) =
     (if 0 \<le> first_weekday \<and> first_weekday \<le> 6
      then cm\<lparr>c_firstweekday := first_weekday\<rparr> else cm)"
  by (simp_all add: page_calendar_def setfirstweekday_def MONDAY_def SUNDAY_def
      calendar_module_update)

lemma add_calendar_page_result:
  "fst (add_calendar_page cm canvas rect d cell_cb ordinals first_weekday) =
     fst (add_calendar_page cm' canvas rect d cell_cb ordinals first_weekday)"
  "fst (snd (add_calendar_page cm canvas rect d cell_cb ordinals first_weekday)) =
     fst (snd (add_calendar_page cm' canvas rect d cell_cb ordinals first_weekday))"
  "snd (snd (add_calendar_page cm canvas rect d cell_cb ordinals first_weekday)) =
     (if 0 \<le> first_weekday \<and> first_weekday \<le> 6
      then cm\<lparr>c_firstweekday := first_weekday\<rparr> else cm)"
proof -
  obtain r cm1 where p: "page_calendar cm first_weekday d = (r, cm1)"
    by (cases "page_calendar cm first_weekday d")
  obtain r' cm1' where p': "page_calendar cm' first_weekday d = (r', cm1')"
    by (cases "page_calendar cm' first_weekday d")
  have "r = r'" using page_calendar_result(1) [of cm first_weekday d]
      page_calendar_result(1) [of cm' first_weekday d] by (simp add: p p')
  have cm1: "cm1 = (if 0 \<le> first_weekday \<and> first_weekday \<le> 6
      then cm\<lparr>c_firstweekday := first_weekday\<rparr> else cm)"
    using page_calendar_result(2) [of cm first_weekday d] by (simp add: p)
  show "fst (add_calendar_page cm canvas rect d cell_cb ordinals first_weekday) =
     fst (add_calendar_page cm' canvas rect d cell_cb ordinals first_weekday)"
    unfolding add_calendar_page_def p p' \<open>r = r'\<close>
    by (simp split: sum.splits prod.splits option.splits)
  show "fst (snd (add_calendar_page cm canvas rect d cell_cb ordinals first_weekday)) =
     fst (snd (add_calendar_page cm' canvas rect d cell_cb ordinals first_weekday))"
    unfolding add_calendar_page_def p p' \<open>r = r'\<close>
    by (simp split: sum.splits prod.splits option.splits)
  show "snd (snd (add_calendar_page cm canvas rect d cell_cb ordinals first_weekday)) =
     (if 0 \<le> first_weekday \<and> first_weekday \<le> 6
      then cm\<lparr>c_firstweekday := first_weekday\<rparr> else cm)"
    unfolding add_calendar_page_def p cm1 [symmetric]
    by (simp split: sum.splits prod.splits option.splits)
qed


lemma save_after_page:
  fixes X X' :: "exn option \<times> canvas \<times> calendar_module"
  assumes "fst X = fst X'" "fst (snd X) = fst (snd X')"
  shows "fst (case X of (Some e, c, cm1) \<Rightarrow> (Some e, c, cm1)
                      | (None, c, cm1) \<Rightarrow> (None, save c, cm1))
         = fst (case X' of (Some e, c, cm1) \<Rightarrow> (Some e, c, cm1)
                         | (None, c, cm1) \<Rightarrow> (None, save c, cm1))"
    and "fst (snd (case X of (Some e, c, cm1) \<Rightarrow> (Some e, c, cm1)
                           | (None, c, cm1) \<Rightarrow> (None, save c, cm1)))
         = fst (snd (case X' of (Some e, c, cm1) \<Rightarrow> (Some e, c, cm1)
                              | (None, c, cm1) \<Rightarrow> (None, save c, cm1)))"
  using assms by (cases X; cases X'; simp split: option.splits)+

lemma save_after_page_module:
  fixes X :: "exn option \<times> canvas \<times> calendar_module"
  shows "snd (snd (case X of (Some e, c, cm1) \<Rightarrow> (Some e, c, cm1)
                           | (None, c, cm1) \<Rightarrow> (None, save c, cm1)))
         = snd (snd X)"
  by (cases X) (simp split: option.splits)

lemma generate_pdf_result:
  "fst (generate_pdf stringWidth cm d outfile pagesize ordinals first_weekday) =
     fst (generate_pdf stringWidth cm' d outfile pagesize ordinals first_weekday)"
  "fst (snd (generate_pdf stringWidth cm d outfile pagesize ordinals first_weekday)) =
     fst (snd (generate_pdf stringWidth cm' d outfile pagesize ordinals first_weekday))"
  "snd (snd (generate_pdf stringWidth cm d outfile pagesize ordinals first_weekday)) =
     (if 0 \<le> first_weekday \<and> first_weekday \<le> 6
      then cm\<lparr>c_firstweekday := first_weekday\<rparr> else cm)"
proof -
  show "fst (generate_pdf stringWidth cm d outfile pagesize ordinals first_weekday) =
     fst (generate_pdf stringWidth cm' d outfile pagesize ordinals first_weekday)"
    unfolding generate_pdf_def Let_def
    by (rule save_after_page(1) [OF add_calendar_page_result(1) add_calendar_page_result(2)])
  show "fst (snd (generate_pdf stringWidth cm d outfile pagesize ordinals first_weekday)) =
     fst (snd (generate_pdf stringWidth cm' d outfile pagesize ordinals first_weekday))"
    unfolding generate_pdf_def Let_def
    by (rule save_after_page(2) [OF add_calendar_page_result(1) add_calendar_page_result(2)])
  show "snd (snd (generate_pdf stringWidth cm d outfile pagesize ordinals first_weekday)) =
     (if 0 \<le> first_weekday \<and> first_weekday \<le> 6
      then cm\<lparr>c_firstweekday := first_weekday\<rparr> else cm)"
    unfolding generate_pdf_def Let_def save_after_page_module
    by (rule add_calendar_page_result(3))
qed

lemma monthcalendar_jan_2024_monday:
  "monthcalendar \<lparr>c_firstweekday = 0\<rparr> 2024 1 =
     Inr [[1, 2, 3, 4, 5, 6, 7], [8, 9, 10, 11, 12, 13, 14], [15, 16, 17, 18, 19, 20, 21],
          [22, 23, 24, 25, 26, 27, 28], [29, 30, 31, 0, 0, 0, 0]]"
  by code_simp

lemma monthcalendar_jan_2024_sunday:
  "monthcalendar \<lparr>c_firstweekday = 6\<rparr> 2024 1 =
     Inr [[0, 1, 2, 3, 4, 5, 6], [7, 8, 9, 10, 11, 12, 13], [14, 15, 16, 17, 18, 19, 20],
          [21, 22, 23, 24, 25, 26, 27], [28, 29, 30, 31, 0, 0, 0]]"
  by code_simp

text \<open>
  C9, as it is written, fails: a completed call changes the calendar module's
  first-weekday setting, which is not part of the canvas and which later users of the
  module observe. After a page with Sunday first, \<open>monthcalendar\<close> called from elsewhere
  for January 2024 returns a different grid than before the call.
\<close>

theorem shared_state_counterexample:
  "snd (snd (generate_pdf fixed_pitch_width \<lparr>c_firstweekday = 0\<rparr>
               \<lparr>dt_year = 2015, dt_month = 2\<rparr> ''calendar.pdf''
               \<lparr>size_width = 792, size_height = 612\<rparr> False 6))
     = \<lparr>c_firstweekday = 6\<rparr>
   \<and> \<lparr>c_firstweekday = 6\<rparr> \<noteq> \<lparr>c_firstweekday = 0\<rparr>
   \<and> monthcalendar
        (snd (snd (generate_pdf fixed_pitch_width \<lparr>c_firstweekday = 0\<rparr>
                     \<lparr>dt_year = 2015, dt_month = 2\<rparr> ''calendar.pdf''
                     \<lparr>size_width = 792, size_height = 612\<rparr> False 6))) 2024 1
     \<noteq> monthcalendar \<lparr>c_firstweekday = 0\<rparr> 2024 1"
  by (simp add: generate_pdf_result(3) monthcalendar_jan_2024_monday
      monthcalendar_jan_2024_sunday)

text \<open>
  C9 (amended). Besides the canvas, \<open>add_calendar_page\<close> and \<open>generate_pdf\<close> change
  exactly one piece of state: the calendar module's first-weekday setting, which becomes
  the call's own \<open>first_weekday\<close> when that is in \<open>0..6\<close> and is left alone otherwise.
  The setting is overwritten before it is read, so the exception and the canvas a call
  produces are the same whatever setting an earlier call left behind: they depend on the
  call's own arguments only.
\<close>

theorem calendar_module_setting_persists:
  "fst (add_calendar_page cm canvas rect d cell_cb ordinals first_weekday)
     = fst (add_calendar_page cm' canvas rect d cell_cb ordinals first_weekday)
   \<and> fst (snd (add_calendar_page cm canvas rect d cell_cb ordinals first_weekday))
     = fst (snd (add_calendar_page cm' canvas rect d cell_cb ordinals first_weekday))
   \<and> snd (snd (add_calendar_page cm canvas rect d cell_cb ordinals first_weekday))
     = (if 0 \<le> first_weekday \<and> first_weekday \<le> 6
        then cm\<lparr>c_firstweekday := first_weekday\<rparr> else cm)
   \<and> fst (generate_pdf stringWidth cm d outfile pagesize ordinals first_weekday)
     = fst (generate_pdf stringWidth cm' d outfile pagesize ordinals first_weekday)
   \<and> fst (snd (generate_pdf stringWidth cm d outfile pagesize ordinals first_weekday))
     = fst (snd (generate_pdf stringWidth cm' d outfile pagesize ordinals first_weekday))
   \<and> snd (snd (generate_pdf stringWidth cm d outfile pagesize ordinals first_weekday))
     = (if 0 \<le> first_weekday \<and> first_weekday \<le> 6
        then cm\<lparr>c_firstweekday := first_weekday\<rparr> else cm)"
  using add_calendar_page_result(1,2) [of cm canvas rect d cell_cb ordinals first_weekday cm']
    add_calendar_page_result(3) [of cm canvas rect d cell_cb ordinals first_weekday]
    generate_pdf_result(1,2) [of stringWidth cm d outfile pagesize ordinals first_weekday cm']
    generate_pdf_result(3) [of stringWidth cm d outfile pagesize ordinals first_weekday]
  by blast

theorem calendar_module_setting_persists_witness:
  "fst (generate_pdf fixed_pitch_width \<lparr>c_firstweekday = 0\<rparr>
          \<lparr>dt_year = 2015, dt_month = 2\<rparr> ''calendar.pdf''
          \<lparr>size_width = 792, size_height = 612\<rparr> False 6)
     = fst (generate_pdf fixed_pitch_width \<lparr>c_firstweekday = 3\<rparr>
          \<lparr>dt_year = 2015, dt_month = 2\<rparr> ''calendar.pdf''
          \<lparr>size_width = 792, size_height = 612\<rparr> False 6)
   \<and> fst (snd (generate_pdf fixed_pitch_width \<lparr>c_firstweekday = 0\<rparr>
          \<lparr>dt_year = 2015, dt_month = 2\<rparr> ''calendar.pdf''
          \<lparr>size_width = 792, size_height = 612\<rparr> False 6))
     = fst (snd (generate_pdf fixed_pitch_width \<lparr>c_firstweekday = 3\<rparr>
          \<lparr>dt_year = 2015, dt_month = 2\<rparr> ''calendar.pdf''
          \<lparr>size_width = 792, size_height = 612\<rparr> False 6))
   \<and> snd (snd (generate_pdf fixed_pitch_width \<lparr>c_firstweekday = 0\<rparr>
          \<lparr>dt_year = 2015, dt_month = 2\<rparr> ''calendar.pdf''
          \<lparr>size_width = 792, size_height = 612\<rparr> False 6))
     = \<lparr>c_firstweekday = 6\<rparr>
   \<and> snd (snd (generate_pdf fixed_pitch_width \<lparr>c_firstweekday = 0\<rparr>
          \<lparr>dt_year = 2015, dt_month = 2\<rparr> ''calendar.pdf''
          \<lparr>size_width = 792, size_height = 612\<rparr> False 7))
     = \<lparr>c_firstweekday = 0\<rparr>"
  using calendar_module_setting_persists
    [of "\<lparr>c_firstweekday = 0\<rparr>" _ _ "\<lparr>dt_year = 2015, dt_month = 2\<rparr>" _ False 6
        "\<lparr>c_firstweekday = 3\<rparr>" fixed_pitch_width "''calendar.pdf''"
        "\<lparr>size_width = 792, size_height = 612\<rparr>"]
    calendar_module_setting_persists
    [of "\<lparr>c_firstweekday = 0\<rparr>" _ _ "\<lparr>dt_year = 2015, dt_month = 2\<rparr>" _ False 7
        "\<lparr>c_firstweekday = 3\<rparr>" fixed_pitch_width "''calendar.pdf''"
        "\<lparr>size_width = 792, size_height = 612\<rparr>"]
  by simp

section \<open>Saving and restoring the drawing state\<close>
















end
